theory Spec2Isabelle
  imports Complex_Main
begin

section \<open>The shop's data model (shop/models.py)\<close>

text \<open>
  The Django models of \<^verbatim>\<open>shop/models.py\<close> are embedded as records, one per model class,
  and the database as a record of tables. A model method becomes a function that takes the
  database, the instance \<open>self\<close> it is called on and the method's arguments, and returns
  the method's result together with the instance and the database as the method leaves them.

  \<^item> Primary keys and clock readings are natural numbers. Every call of a method takes one
    reading \<open>now\<close> of the clock, used wherever the method reads \<^verbatim>\<open>timezone.now()\<close> or
    Django fills an \<^verbatim>\<open>auto_now\<close> column.
  \<^item> Python integers are \<open>int\<close>. A \<^verbatim>\<open>DecimalField\<close> with two decimal places holds its value
    in hundredths, as an \<open>int\<close>: the price 50.00 is 5000. Sums and products of such values by
    integers are exact in Python's \<^verbatim>\<open>Decimal\<close>, as they are here.
  \<^item> A foreign key is the primary key of the row it refers to. Reading the related object
    looks the row up in the database; a missing row is the exception \<open>DoesNotExist\<close>.
  \<^item> The database is PostgreSQL (\<^verbatim>\<open>core/settings.py\<close>), where the column of a
    \<^verbatim>\<open>PositiveIntegerField\<close> carries a CHECK that its value is not negative. For
    \<open>Product.stock\<close> the CHECK is modelled: a save that would write a negative stock
    raises \<open>IntegrityError\<close> and writes nothing (\<open>Product_save_checked\<close> below). The
    other constraints of the backend (\<^verbatim>\<open>unique_together\<close>, \<^verbatim>\<open>max_digits\<close>, the CHECK of
    the other columns) are not modelled.
  \<^item> Fields that no modelled method reads or writes (the image fields of \<open>Product\<close>, the
    creation stamps of \<open>Cart\<close>, \<open>Review\<close> and \<open>StockMovement\<close>) are left out.
\<close>

type_synonym pk = nat
type_synonym datetime = nat
type_synonym decimal = int

datatype error = DoesNotExist | IntegrityError

record product =
  product_id :: pk
  category :: pk
  name :: string
  slug :: string
  description :: string
  price :: decimal
  stock :: int
  low_stock_threshold :: int
  reorder_point :: int
  available :: bool
  average_rating :: decimal
  total_reviews :: int
  created :: datetime
  updated :: datetime
  last_stock_update :: datetime

record cart =
  cart_id :: pk
  cart_user :: pk
  cart_status :: string
  cart_updated_at :: datetime

record cart_item =
  ci_cart :: pk
  ci_product :: pk
  ci_quantity :: int

record order =
  order_id :: pk
  order_user :: pk
  order_status :: string
  total_amount :: decimal
  order_created_at :: datetime
  order_updated_at :: datetime
  shipping_address :: "string option"
  tracking_number :: "string option"

record order_item =
  oi_order :: pk
  oi_product :: pk
  oi_quantity :: int
  oi_price :: decimal

text \<open>
  A \<open>Review\<close> that has not been saved yet has no primary key. Its \<^verbatim>\<open>order_item\<close> is the
  related \<open>OrderItem\<close> object, or \<open>None\<close>.
\<close>

record review =
  review_id :: "pk option"
  review_product :: pk
  review_user :: pk
  rating :: int
  title :: string
  comment :: string
  review_updated_at :: datetime
  is_verified_purchase :: bool
  order_item :: "order_item option"
  helpful_votes :: int
  reported_count :: int
  is_visible :: bool
  moderation_notes :: string

record stock_movement =
  sm_product :: pk
  sm_quantity :: int
  sm_type :: string
  sm_reference :: string
  sm_notes :: string
  sm_created_by :: "pk option"

text \<open>
  The database. \<open>products\<close>, \<open>carts\<close> and \<open>orders\<close> are read by primary key; the other
  tables are read by queries, which return the matching rows in the order of the table.
  \<open>next_order_id\<close> and \<open>next_review_id\<close> are the sequences that number new rows.
\<close>

record store =
  products :: "pk \<rightharpoonup> product"
  carts :: "pk \<rightharpoonup> cart"
  cart_items :: "cart_item list"
  orders :: "pk \<rightharpoonup> order"
  order_items :: "order_item list"
  reviews :: "review list"
  stock_movements :: "stock_movement list"
  next_order_id :: pk
  next_review_id :: pk

section \<open>Product\<close>

text \<open>
  \<^verbatim>\<open>Product.save()\<close>: \<open>updated\<close> and \<open>last_stock_update\<close> are both declared
  \<^verbatim>\<open>auto_now=True\<close>, so every save stamps them, on the instance and in the row.
  \<open>Product_save\<close> is the write itself. \<open>Product_save_checked\<close> is the save as the
  database answers it: \<open>stock\<close> is a \<^verbatim>\<open>PositiveIntegerField\<close> (line 32), the write of a
  negative stock violates the CHECK of its column and raises \<open>IntegrityError\<close>, and the
  table is left as it was.
\<close>

definition Product_save :: "store \<Rightarrow> product \<Rightarrow> datetime \<Rightarrow> product \<times> store" where
  "Product_save st self now =
     (let self' = self\<lparr>updated := now, last_stock_update := now\<rparr>
      in (self', st\<lparr>products := (products st)(product_id self' \<mapsto> self')\<rparr>))"

definition Product_save_checked ::
  "store \<Rightarrow> product \<Rightarrow> datetime \<Rightarrow> error + (product \<times> store)" where
  "Product_save_checked st self now =
     (if stock self < 0 then Inl IntegrityError else Inr (Product_save st self now))"

text \<open>
  \<^verbatim>\<open>Product.adjust_stock(quantity, operation)\<close>, lines 102-121. The result is the returned
  boolean, the instance and the database. The method is modelled with the plain write: in
  the \<^verbatim>\<open>remove\<close> branch the stock written is \<open>stock - quantity\<close> under
  \<open>stock \<ge> quantity\<close>, which the CHECK always accepts. In the \<^verbatim>\<open>add\<close> branch the CHECK
  refuses the write exactly when \<open>stock + quantity\<close> is negative;
  \<open>adjust_stock_checked\<close>, after the definition, is the call with that answer of the
  database: \<^verbatim>\<open>self.save()\<close> is the last statement before \<^verbatim>\<open>return True\<close>, so a call whose
  save is refused raises \<open>IntegrityError\<close> and has written nothing.
\<close>

definition adjust_stock ::
  "store \<Rightarrow> product \<Rightarrow> int \<Rightarrow> string \<Rightarrow> datetime \<Rightarrow> bool \<times> product \<times> store" where
  "adjust_stock st self quantity operation now =
     (if operation = ''remove'' then
        (if stock self \<ge> quantity then
           (let self1 = self\<lparr>stock := stock self - quantity\<rparr>;
                self2 = self1\<lparr>last_stock_update := now\<rparr>;
                (self3, st') = Product_save st self2 now
            in (True, self3, st'))
         else (False, self, st))
      else if operation = ''add'' then
        (let self1 = self\<lparr>stock := stock self + quantity\<rparr>;
             self2 = self1\<lparr>last_stock_update := now\<rparr>;
             (self3, st') = Product_save st self2 now
         in (True, self3, st'))
      else (False, self, st))"

definition adjust_stock_checked ::
  "store \<Rightarrow> product \<Rightarrow> int \<Rightarrow> string \<Rightarrow> datetime
     \<Rightarrow> error + (bool \<times> product \<times> store)" where
  "adjust_stock_checked st self quantity operation now =
     (let (ok, self', st') = adjust_stock st self quantity operation now
      in if ok \<and> stock self' < 0 then Inl IntegrityError else Inr (ok, self', st'))"

text \<open>
  \<^verbatim>\<open>StockMovement.save()\<close>, lines 569-581. \<^verbatim>\<open>self.product\<close> is read from the database.
  \<^verbatim>\<open>self.product.save()\<close> is the checked save: when the database refuses the row, the
  exception leaves the method before \<^verbatim>\<open>super().save()\<close>, so neither the product nor the
  movement is written. Otherwise the movement is appended to its table, and the updated
  product instance is returned with the database.
\<close>

definition StockMovement_save ::
  "store \<Rightarrow> stock_movement \<Rightarrow> datetime \<Rightarrow> error + (product \<times> store)" where
  "StockMovement_save st self now =
     (case products st (sm_product self) of
        None \<Rightarrow> Inl DoesNotExist
      | Some product \<Rightarrow>
          (let product1 =
                 (if sm_type self = ''in'' then
                    product\<lparr>stock := stock product + sm_quantity self\<rparr>
                  else if sm_type self = ''out'' then
                    product\<lparr>stock := stock product - abs (sm_quantity self)\<rparr>
                  else if sm_type self = ''adjustment'' then
                    product\<lparr>stock := stock product + sm_quantity self\<rparr>
                  else product);
               product2 = product1\<lparr>last_stock_update := now\<rparr>
           in case Product_save_checked st product2 now of
                Inl e \<Rightarrow> Inl e
              | Inr (product3, st1) \<Rightarrow>
                  Inr (product3, st1\<lparr>stock_movements := stock_movements st1 @ [self]\<rparr>)))"

text \<open>
  A stock-mutating operation is a call of \<open>adjust_stock\<close> on a product instance or the
  save of a stock movement, at some time. \<open>stock_step\<close> is the database after one
  operation: an operation that raises has written nothing, so it leaves the database as it
  was. \<open>run_stock_ops\<close> runs a sequence of operations from left to right.
\<close>

datatype stock_op = Adjust product int string | Movement stock_movement

fun stock_step :: "store \<Rightarrow> stock_op \<times> datetime \<Rightarrow> store" where
  "stock_step st (Adjust self quantity operation, now) =
     (case adjust_stock_checked st self quantity operation now of
        Inl e \<Rightarrow> st
      | Inr (ok, self', st') \<Rightarrow> st')"
| "stock_step st (Movement movement, now) =
     (case StockMovement_save st movement now of
        Inl e \<Rightarrow> st
      | Inr (product, st') \<Rightarrow> st')"

definition run_stock_ops :: "store \<Rightarrow> (stock_op \<times> datetime) list \<Rightarrow> store" where
  "run_stock_ops st ops = foldl stock_step st ops"

section \<open>Cart and checkout\<close>

text \<open>\<^verbatim>\<open>self.items.all()\<close> of a cart: the rows of \<open>CartItem\<close> whose cart is \<open>self\<close>.\<close>

definition Cart_items :: "store \<Rightarrow> cart \<Rightarrow> cart_item list" where
  "Cart_items st self = filter (\<lambda>item. ci_cart item = cart_id self) (cart_items st)"

text \<open>\<^verbatim>\<open>CartItem.subtotal()\<close>: \<^verbatim>\<open>self.product.price * self.quantity\<close>.\<close>

definition CartItem_subtotal :: "store \<Rightarrow> cart_item \<Rightarrow> error + decimal" where
  "CartItem_subtotal st self =
     (case products st (ci_product self) of
        None \<Rightarrow> Inl DoesNotExist
      | Some product \<Rightarrow> Inr (price product * ci_quantity self))"

fun sum_subtotals :: "store \<Rightarrow> cart_item list \<Rightarrow> error + decimal" where
  "sum_subtotals st [] = Inr 0"
| "sum_subtotals st (item # items) =
     (case CartItem_subtotal st item of
        Inl e \<Rightarrow> Inl e
      | Inr x \<Rightarrow> (case sum_subtotals st items of Inl e \<Rightarrow> Inl e | Inr s \<Rightarrow> Inr (x + s)))"

text \<open>\<^verbatim>\<open>Cart.total_price()\<close>: \<^verbatim>\<open>sum(item.subtotal() for item in self.items.all())\<close>.\<close>

definition total_price :: "store \<Rightarrow> cart \<Rightarrow> error + decimal" where
  "total_price st self = sum_subtotals st (Cart_items st self)"

text \<open>\<^verbatim>\<open>Cart.save()\<close>; \<open>updated_at\<close> is \<^verbatim>\<open>auto_now\<close>.\<close>

definition Cart_save :: "store \<Rightarrow> cart \<Rightarrow> datetime \<Rightarrow> cart \<times> store" where
  "Cart_save st self now =
     (let self' = self\<lparr>cart_updated_at := now\<rparr>
      in (self', st\<lparr>carts := (carts st)(cart_id self' \<mapsto> self')\<rparr>))"

text \<open>
  \<^verbatim>\<open>Order.objects.create(user=..., total_amount=...)\<close>: the new row takes the next value of
  the sequence as its key and the declared defaults for the other fields.
\<close>

definition Order_objects_create ::
  "store \<Rightarrow> pk \<Rightarrow> decimal \<Rightarrow> datetime \<Rightarrow> order \<times> store" where
  "Order_objects_create st user amount now =
     (let ord = \<lparr>order_id = next_order_id st, order_user = user, order_status = ''pending'',
                 total_amount = amount, order_created_at = now, order_updated_at = now,
                 shipping_address = None, tracking_number = None\<rparr>
      in (ord, st\<lparr>orders := (orders st)(order_id ord \<mapsto> ord),
                  next_order_id := Suc (next_order_id st)\<rparr>))"

definition OrderItem_objects_create :: "store \<Rightarrow> order_item \<Rightarrow> store" where
  "OrderItem_objects_create st item = st\<lparr>order_items := order_items st @ [item]\<rparr>"

text \<open>
  The first loop of \<^verbatim>\<open>Cart.checkout()\<close>, lines 204-208: \<open>Some msg\<close> is the early
  \<^verbatim>\<open>return False, msg\<close>, \<open>None\<close> the end of the loop.
\<close>

fun check_stock :: "store \<Rightarrow> cart_item list \<Rightarrow> error + string option" where
  "check_stock st [] = Inr None"
| "check_stock st (item # items) =
     (case products st (ci_product item) of
        None \<Rightarrow> Inl DoesNotExist
      | Some product \<Rightarrow>
          if \<not> available product then
            Inr (Some (''Product '' @ name product @ '' is not available''))
          else if ci_quantity item > stock product then
            Inr (Some (''Insufficient stock for '' @ name product))
          else check_stock st items)"

text \<open>
  The second loop, lines 217-225. Each pass reads \<^verbatim>\<open>item.product\<close> from the database,
  creates the \<open>OrderItem\<close> with the product's price and calls \<open>adjust_stock\<close>, whose
  result the loop does not look at.
\<close>

fun process_items :: "store \<Rightarrow> order \<Rightarrow> cart_item list \<Rightarrow> datetime \<Rightarrow> error + store" where
  "process_items st ord [] now = Inr st"
| "process_items st ord (item # items) now =
     (case products st (ci_product item) of
        None \<Rightarrow> Inl DoesNotExist
      | Some product \<Rightarrow>
          (let st1 = OrderItem_objects_create st
                       \<lparr>oi_order = order_id ord, oi_product = ci_product item,
                        oi_quantity = ci_quantity item, oi_price = price product\<rparr>;
               (ok, product', st2) = adjust_stock st1 product (ci_quantity item) ''remove'' now
           in process_items st2 ord items now))"

text \<open>
  \<^verbatim>\<open>Cart.checkout()\<close>, lines 198-231, returns \<^verbatim>\<open>(False, message)\<close> or
  \<^verbatim>\<open>(True, order)\<close>: the second component is a string or an \<open>Order\<close>.
\<close>

datatype str_or_order = Msg string | Ord order

definition checkout ::
  "store \<Rightarrow> cart \<Rightarrow> datetime \<Rightarrow> error + ((bool \<times> str_or_order) \<times> cart \<times> store)" where
  "checkout st self now =
     (case check_stock st (Cart_items st self) of
        Inl e \<Rightarrow> Inl e
      | Inr (Some msg) \<Rightarrow> Inr ((False, Msg msg), self, st)
      | Inr None \<Rightarrow>
          (case total_price st self of
             Inl e \<Rightarrow> Inl e
           | Inr amount \<Rightarrow>
               (let (ord, st1) = Order_objects_create st (cart_user self) amount now
                in (case process_items st1 ord (Cart_items st1 self) now of
                      Inl e \<Rightarrow> Inl e
                    | Inr st2 \<Rightarrow>
                        (let self1 = self\<lparr>cart_status := ''checked_out''\<rparr>;
                             (self2, st3) = Cart_save st2 self1 now
                         in Inr ((True, Ord ord), self2, st3))))))"

section \<open>Order\<close>

text \<open>\<^verbatim>\<open>self.items.all()\<close> of an order, and \<^verbatim>\<open>OrderItem.subtotal()\<close>.\<close>

definition Order_items :: "store \<Rightarrow> order \<Rightarrow> order_item list" where
  "Order_items st self = filter (\<lambda>item. oi_order item = order_id self) (order_items st)"

definition OrderItem_subtotal :: "order_item \<Rightarrow> decimal" where
  "OrderItem_subtotal self = oi_price self * oi_quantity self"

definition can_cancel :: "order \<Rightarrow> bool" where
  "can_cancel self \<longleftrightarrow> order_status self \<in> set [''pending'', ''processing'']"

definition Order_save :: "store \<Rightarrow> order \<Rightarrow> datetime \<Rightarrow> order \<times> store" where
  "Order_save st self now =
     (let self' = self\<lparr>order_updated_at := now\<rparr>
      in (self', st\<lparr>orders := (orders st)(order_id self' \<mapsto> self')\<rparr>))"

text \<open>
  The loop of \<^verbatim>\<open>Order.cancel_order()\<close>, lines 296-297. It calls \<open>adjust_stock\<close> with
  the quantity of a stored order item, a \<^verbatim>\<open>PositiveIntegerField\<close>: on the rows a database
  holds the stock only grows, and the CHECK of the stock does not refuse the write.
\<close>

fun restore_stock :: "store \<Rightarrow> order_item list \<Rightarrow> datetime \<Rightarrow> error + store" where
  "restore_stock st [] now = Inr st"
| "restore_stock st (item # items) now =
     (case products st (oi_product item) of
        None \<Rightarrow> Inl DoesNotExist
      | Some product \<Rightarrow>
          (let (ok, product', st1) = adjust_stock st product (oi_quantity item) ''add'' now
           in restore_stock st1 items now))"

text \<open>\<^verbatim>\<open>Order.cancel_order()\<close>, lines 290-301.\<close>

definition cancel_order ::
  "store \<Rightarrow> order \<Rightarrow> datetime \<Rightarrow> error + ((bool \<times> string) \<times> order \<times> store)" where
  "cancel_order st self now =
     (if \<not> can_cancel self then Inr ((False, ''Order cannot be cancelled''), self, st)
      else
        (case restore_stock st (Order_items st self) now of
           Inl e \<Rightarrow> Inl e
         | Inr st1 \<Rightarrow>
             (let self1 = self\<lparr>order_status := ''cancelled''\<rparr>;
                  (self2, st2) = Order_save st1 self1 now
              in Inr ((True, ''Order cancelled successfully''), self2, st2))))"

section \<open>Review\<close>

text \<open>
  \<^verbatim>\<open>product.reviews.filter(is_visible=True)\<close>, and the aggregate \<^verbatim>\<open>Avg('rating')\<close> as the
  exact mean of the ratings of a non-empty query.
\<close>

definition visible_reviews :: "store \<Rightarrow> pk \<Rightarrow> review list" where
  "visible_reviews st pid = filter (\<lambda>r. review_product r = pid \<and> is_visible r) (reviews st)"

definition Avg :: "int list \<Rightarrow> rat" where
  "Avg xs = of_int (sum_list xs) / of_nat (length xs)"

text \<open>
  \<^verbatim>\<open>Review.update_product_rating()\<close>, lines 387-397. Python's \<^verbatim>\<open>round(avg_rating, 2)\<close> works on
  the floating-point average that the database returns, and the result is stored in a
  decimal column with two places. Floating-point arithmetic is outside this embedding: the
  rounding is the parameter \<open>round2\<close>, which maps the exact mean to the stored value, in
  hundredths. Whatever is proved holds for every such function.
\<close>

definition update_product_rating ::
  "(rat \<Rightarrow> decimal) \<Rightarrow> store \<Rightarrow> review \<Rightarrow> datetime \<Rightarrow> error + store" where
  "update_product_rating round2 st self now =
     (case products st (review_product self) of
        None \<Rightarrow> Inl DoesNotExist
      | Some product \<Rightarrow>
          (let revs = visible_reviews st (product_id product)
           in if revs \<noteq> [] then
                (let avg_rating = Avg (map rating revs);
                     product1 = product\<lparr>average_rating := round2 avg_rating\<rparr>;
                     product2 = product1\<lparr>total_reviews := int (length revs)\<rparr>;
                     (product3, st') = Product_save st product2 now
                 in Inr st')
              else Inr st))"

text \<open>
  \<^verbatim>\<open>super().save()\<close> of a review: a review without a key is inserted under the next key
  of the sequence; one with a key replaces the row of that key, or is inserted when there
  is no such row. \<open>updated_at\<close> is \<^verbatim>\<open>auto_now\<close>.
\<close>

definition Review_super_save :: "store \<Rightarrow> review \<Rightarrow> datetime \<Rightarrow> review \<times> store" where
  "Review_super_save st self now =
     (let self1 = self\<lparr>review_updated_at := now\<rparr>
      in case review_id self1 of
           None \<Rightarrow>
             (let self2 = self1\<lparr>review_id := Some (next_review_id st)\<rparr>
              in (self2, st\<lparr>reviews := reviews st @ [self2],
                            next_review_id := Suc (next_review_id st)\<rparr>))
         | Some i \<Rightarrow>
             if \<exists>r \<in> set (reviews st). review_id r = Some i then
               (self1, st\<lparr>reviews := map (\<lambda>r. if review_id r = Some i then self1 else r)
                                          (reviews st)\<rparr>)
             else (self1, st\<lparr>reviews := reviews st @ [self1]\<rparr>))"

text \<open>
  The purchase check at the head of \<^verbatim>\<open>Review.save()\<close>, lines 375-381. The three tests
  are joined by \<^verbatim>\<open>and\<close>, so the products are read only when the order belongs to the
  reviewer and is delivered; \<^verbatim>\<open>self.order_item.product == self.product\<close> reads both
  products and compares their primary keys, as Django's \<^verbatim>\<open>Model.__eq__\<close> does. Users are
  not a table of the model: a user is its key.
\<close>

definition verify_purchase :: "store \<Rightarrow> review \<Rightarrow> error + review" where
  "verify_purchase st self =
     (if \<not> is_verified_purchase self then
        (case order_item self of
           None \<Rightarrow> Inr self
         | Some item \<Rightarrow>
             (case orders st (oi_order item) of
                None \<Rightarrow> Inl DoesNotExist
              | Some ord \<Rightarrow>
                  if order_user ord = review_user self \<and> order_status ord = ''delivered''
                  then
                    (case products st (oi_product item) of
                       None \<Rightarrow> Inl DoesNotExist
                     | Some item_product \<Rightarrow>
                         (case products st (review_product self) of
                            None \<Rightarrow> Inl DoesNotExist
                          | Some product \<Rightarrow>
                              if product_id item_product = product_id product
                              then Inr (self\<lparr>is_verified_purchase := True\<rparr>)
                              else Inr self))
                  else Inr self))
      else Inr self)"

text \<open>\<^verbatim>\<open>Review.save()\<close>, lines 373-385.\<close>

definition Review_save ::
  "(rat \<Rightarrow> decimal) \<Rightarrow> store \<Rightarrow> review \<Rightarrow> datetime \<Rightarrow> error + (review \<times> store)" where
  "Review_save round2 st self now =
     (case verify_purchase st self of
        Inl e \<Rightarrow> Inl e
      | Inr self1 \<Rightarrow>
          (let (self2, st1) = Review_super_save st self1 now
           in case update_product_rating round2 st1 self2 now of
                Inl e \<Rightarrow> Inl e
              | Inr st2 \<Rightarrow> Inr (self2, st2)))"

text \<open>\<^verbatim>\<open>Review.report()\<close>, lines 399-406.\<close>

definition report ::
  "(rat \<Rightarrow> decimal) \<Rightarrow> store \<Rightarrow> review \<Rightarrow> datetime \<Rightarrow> error + (review \<times> store)" where
  "report round2 st self now =
     (let self1 = self\<lparr>reported_count := reported_count self + 1\<rparr>;
          self2 = (if reported_count self1 \<ge> 5 then
                     self1\<lparr>is_visible := False,
                           moderation_notes := moderation_notes self1
                              @ (CHR 0x0A # ''Auto-hidden due to multiple reports.'')\<rparr>
                   else self1)
      in Review_save round2 st self2 now)"

text \<open>
  The foreign keys that \<^verbatim>\<open>Review.save()\<close> may follow resolve: the reviewed product is in
  the database and, if the review has an order item, so are that item's order and
  product. The database guarantees this for rows it holds (\<^verbatim>\<open>on_delete=CASCADE\<close>,
  \<^verbatim>\<open>SET_NULL\<close>).
\<close>

definition review_refs_ok :: "store \<Rightarrow> review \<Rightarrow> bool" where
  "review_refs_ok st self \<longleftrightarrow>
     products st (review_product self) \<noteq> None
     \<and> (case order_item self of
          None \<Rightarrow> True
        | Some item \<Rightarrow> orders st (oi_order item) \<noteq> None
                     \<and> products st (oi_product item) \<noteq> None)"

text \<open>
  Every row of \<open>products\<close> is stored under its own primary key, as in a database table.
\<close>

definition pk_consistent :: "store \<Rightarrow> bool" where
  "pk_consistent st \<longleftrightarrow> (\<forall>k p. products st k = Some p \<longrightarrow> product_id p = k)"

text \<open>
  Two notions used in the proofs about checkout and cancellation: an order item is the
  snapshot of a cart item for an order when it copies the product, the quantity and the
  price the product has in the database; and the quantity that the items of an order
  hold of one product.
\<close>

definition snapshot_of :: "store \<Rightarrow> order \<Rightarrow> cart_item \<Rightarrow> order_item \<Rightarrow> bool" where
  "snapshot_of st ord item oi \<longleftrightarrow>
     oi_order oi = order_id ord \<and> oi_product oi = ci_product item
     \<and> oi_quantity oi = ci_quantity item
     \<and> map_option price (products st (ci_product item)) = Some (oi_price oi)"

definition restored :: "order_item list \<Rightarrow> pk \<Rightarrow> int" where
  "restored items k = sum_list (map oi_quantity (filter (\<lambda>item. oi_product item = k) items))"

section \<open>A small database\<close>

text \<open>
  The data of the concrete scenarios: one product with ten units in stock at 50.00, and
  the cart of user 1 holding three units of it.
\<close>

definition example_product :: product where
  "example_product = \<lparr>product_id = 1, category = 1, name = ''Test Product'',
     slug = ''test-product'', description = [], price = 5000, stock = 10,
     low_stock_threshold = 10, reorder_point = 20, available = True, average_rating = 0,
     total_reviews = 0, created = 0, updated = 0, last_stock_update = 0\<rparr>"

definition example_cart :: cart where
  "example_cart = \<lparr>cart_id = 1, cart_user = 1, cart_status = ''active'', cart_updated_at = 0\<rparr>"

definition example_store :: store where
  "example_store = \<lparr>products = [1 \<mapsto> example_product], carts = [1 \<mapsto> example_cart],
     cart_items = [\<lparr>ci_cart = 1, ci_product = 1, ci_quantity = 3\<rparr>], orders = Map.empty,
     order_items = [], reviews = [], stock_movements = [], next_order_id = 1,
     next_review_id = 1\<rparr>"

text \<open>
  A stock movement of type \<^verbatim>\<open>out\<close> for fifteen units of the product, one of type
  \<^verbatim>\<open>in\<close> for four units, and a sequence of four stock operations.
\<close>

definition example_movement :: stock_movement where
  "example_movement = \<lparr>sm_product = 1, sm_quantity = - 15, sm_type = ''out'',
     sm_reference = [], sm_notes = [], sm_created_by = None\<rparr>"

definition restock_movement :: stock_movement where
  "restock_movement = \<lparr>sm_product = 1, sm_quantity = 4, sm_type = ''in'',
     sm_reference = [], sm_notes = [], sm_created_by = None\<rparr>"

definition example_ops :: "(stock_op \<times> datetime) list" where
  "example_ops = [(Movement example_movement, 5), (Adjust example_product (- 15) ''add'', 6),
                  (Adjust example_product 3 ''remove'', 7), (Movement restock_movement, 8)]"

text \<open>
  The same product after one review with four stars, which has been reported four times;
  a second reviewer's five stars, not saved yet; and a rounding to hundredths that stands
  for \<open>round2\<close> where a scenario is evaluated.
\<close>

definition nearest_hundredth :: "rat \<Rightarrow> decimal" where
  "nearest_hundredth q = round (q * 100)"

definition rated_product :: product where
  "rated_product = example_product\<lparr>average_rating := 400, total_reviews := 1\<rparr>"

definition rated_review :: review where
  "rated_review = \<lparr>review_id = Some 1, review_product = 1, review_user = 1, rating = 4,
     title = ''Good'', comment = ''A good product'', review_updated_at = 0,
     is_verified_purchase = False, order_item = None, helpful_votes = 0, reported_count = 4,
     is_visible = True, moderation_notes = []\<rparr>"

definition rated_store :: store where
  "rated_store = example_store\<lparr>products := [1 \<mapsto> rated_product], reviews := [rated_review],
     next_review_id := 2\<rparr>"

definition second_review :: review where
  "second_review = \<lparr>review_id = None, review_product = 1, review_user = 2, rating = 5,
     title = ''Great'', comment = ''Excellent'', review_updated_at = 0,
     is_verified_purchase = False, order_item = None, helpful_votes = 0, reported_count = 0,
     is_visible = True, moderation_notes = []\<rparr>"

text \<open>The first review after a fifth report, and the database that report leaves.\<close>

definition hidden_review :: review where
  "hidden_review = rated_review\<lparr>review_updated_at := 5, reported_count := 5,
     is_visible := False,
     moderation_notes := CHR 0x0A # ''Auto-hidden due to multiple reports.''\<rparr>"

definition stale_store :: store where
  "stale_store = rated_store\<lparr>reviews := [hidden_review]\<rparr>"

text \<open>The second review once saved, and the database that save leaves.\<close>

definition second_saved :: review where
  "second_saved = second_review\<lparr>review_id := Some 2, review_updated_at := 5\<rparr>"

definition two_store :: store where
  "two_store = rated_store\<lparr>
     products := [1 \<mapsto> rated_product\<lparr>average_rating := 450, total_reviews := 2,
                                     updated := 5, last_stock_update := 5\<rparr>],
     reviews := [rated_review, second_saved], next_review_id := 3\<rparr>"

text \<open>
  A delivered order of user 2 for one unit of the product, and the second review when it
  refers to that order's item.
\<close>

definition delivered_order :: order where
  "delivered_order = \<lparr>order_id = 1, order_user = 2, order_status = ''delivered'',
     total_amount = 5000, order_created_at = 0, order_updated_at = 0,
     shipping_address = None, tracking_number = None\<rparr>"

definition purchased_item :: order_item where
  "purchased_item = \<lparr>oi_order = 1, oi_product = 1, oi_quantity = 1, oi_price = 5000\<rparr>"

definition order_store :: store where
  "order_store = rated_store\<lparr>orders := [1 \<mapsto> delivered_order],
     order_items := [purchased_item], next_order_id := 2\<rparr>"

definition buyer_review :: review where
  "buyer_review = second_review\<lparr>order_item := Some purchased_item\<rparr>"

text \<open>
  The same review written by user 3, who did not place the order, and the database in
  which the order is shipped but not delivered yet.
\<close>

definition stranger_review :: review where
  "stranger_review = buyer_review\<lparr>review_user := 3\<rparr>"

definition shipped_store :: store where
  "shipped_store = order_store\<lparr>orders := [1 \<mapsto> delivered_order\<lparr>order_status := ''shipped''\<rparr>]\<rparr>"

text \<open>
  The cart holding eleven units instead of three; and the order, the cart and the database
  that \<^verbatim>\<open>Cart.checkout()\<close> makes of the first database at time 5.
\<close>

definition scarce_store :: store where
  "scarce_store = example_store\<lparr>cart_items := [\<lparr>ci_cart = 1, ci_product = 1, ci_quantity = 11\<rparr>]\<rparr>"

definition example_order :: order where
  "example_order = \<lparr>order_id = 1, order_user = 1, order_status = ''pending'',
     total_amount = 15000, order_created_at = 5, order_updated_at = 5,
     shipping_address = None, tracking_number = None\<rparr>"

definition checked_out_cart :: cart where
  "checked_out_cart = example_cart\<lparr>cart_status := ''checked_out'', cart_updated_at := 5\<rparr>"

definition checked_out_store :: store where
  "checked_out_store = example_store\<lparr>
     products := [1 \<mapsto> example_product\<lparr>stock := 7, updated := 5, last_stock_update := 5\<rparr>],
     carts := [1 \<mapsto> checked_out_cart],
     orders := [1 \<mapsto> example_order],
     order_items := [\<lparr>oi_order = 1, oi_product = 1, oi_quantity = 3, oi_price = 5000\<rparr>],
     next_order_id := 2\<rparr>"

section \<open>Stock adjustment\<close>

text \<open>
  C5. \<^verbatim>\<open>adjust_stock(quantity, 'remove')\<close> returns \<open>True\<close> exactly when
  \<open>stock \<ge> quantity\<close>. It then takes \<open>quantity\<close> off the stock, on the instance and in the
  saved row. When \<open>stock < quantity\<close> it returns \<open>False\<close>, and the instance, with every one
  of its fields, and the database are what they were.
\<close>

theorem adjust_stock_remove:
  assumes "adjust_stock st self quantity ''remove'' now = (ok, self', st')"
  shows "(ok \<longleftrightarrow> stock self \<ge> quantity)
       \<and> (ok \<longrightarrow> stock self' = stock self - quantity
                \<and> products st' (product_id self) = Some self')
       \<and> (\<not> ok \<longrightarrow> self' = self \<and> st' = st)"
  using assms by (auto simp: adjust_stock_def Product_save_def Let_def split: if_splits)

theorem adjust_stock_remove_witness:
  "fst (adjust_stock example_store example_product 3 ''remove'' 5)
   \<and> stock (fst (snd (adjust_stock example_store example_product 3 ''remove'' 5))) = 7
   \<and> \<not> fst (adjust_stock example_store example_product 11 ''remove'' 5)
   \<and> snd (adjust_stock example_store example_product 11 ''remove'' 5)
       = (example_product, example_store)"
proof -
  have a: "adjust_stock example_store example_product 3 ''remove'' 5
             = (fst (adjust_stock example_store example_product 3 ''remove'' 5),
                fst (snd (adjust_stock example_store example_product 3 ''remove'' 5)),
                snd (snd (adjust_stock example_store example_product 3 ''remove'' 5)))"
    by simp
  have b: "adjust_stock example_store example_product 11 ''remove'' 5
             = (fst (adjust_stock example_store example_product 11 ''remove'' 5),
                fst (snd (adjust_stock example_store example_product 11 ''remove'' 5)),
                snd (snd (adjust_stock example_store example_product 11 ''remove'' 5)))"
    by simp
  have s: "stock example_product = 10" by (simp add: example_product_def)
  from adjust_stock_remove[OF a] adjust_stock_remove[OF b] s show ?thesis
    by (cases "adjust_stock example_store example_product 11 ''remove'' 5") auto
qed

text \<open>
  What \<open>adjust_stock\<close> does keep: called with a quantity that is not negative, it never
  takes the stock of its product below zero.
\<close>

lemma adjust_stock_keeps_stock_nonneg:
  assumes "adjust_stock st self quantity operation now = (ok, self', st')"
    and "0 \<le> stock self" and "0 \<le> quantity"
  shows "0 \<le> stock self'"
  using assms
  by (auto simp: adjust_stock_def Product_save_def Let_def split: if_splits)

text \<open>
  Neither kind of operation writes a product row with a negative stock: the checked save
  refuses it.
\<close>

lemma StockMovement_save_products:
  assumes "StockMovement_save st movement now = Inr (product, st')"
  shows "products st' = (products st)(product_id product \<mapsto> product) \<and> 0 \<le> stock product"
  using assms
  by (auto simp: StockMovement_save_def Product_save_checked_def Product_save_def Let_def
           split: option.splits if_splits)

lemma adjust_stock_checked_products:
  assumes "adjust_stock_checked st self quantity operation now = Inr (ok, self', st')"
  shows "products st' = products st
       \<or> (products st' = (products st)(product_id self' \<mapsto> self') \<and> 0 \<le> stock self')"
  using assms
  by (auto simp: adjust_stock_checked_def adjust_stock_def Product_save_def Let_def
           split: if_splits)

lemma stock_step_keeps_stock_nonneg:
  assumes "\<forall>k p. products st k = Some p \<longrightarrow> 0 \<le> stock p"
  shows "\<forall>k p. products (stock_step st x) k = Some p \<longrightarrow> 0 \<le> stock p"
proof (cases x)
  case (Pair op now)
  show ?thesis
  proof (cases op)
    case (Adjust self quantity operation)
    show ?thesis
    proof (cases "adjust_stock_checked st self quantity operation now")
      case (Inl e)
      with Pair Adjust assms show ?thesis by simp
    next
      case (Inr r)
      obtain ok self' st' where r: "r = (ok, self', st')" by (cases r)
      from adjust_stock_checked_products[OF Inr[unfolded r]] assms
      have "\<forall>k p. products st' k = Some p \<longrightarrow> 0 \<le> stock p"
        by (auto split: if_splits)
      with Pair Adjust Inr r show ?thesis by simp
    qed
  next
    case (Movement movement)
    show ?thesis
    proof (cases "StockMovement_save st movement now")
      case (Inl e)
      with Pair Movement assms show ?thesis by simp
    next
      case (Inr r)
      obtain product st' where r: "r = (product, st')" by (cases r)
      from StockMovement_save_products[OF Inr[unfolded r]] assms
      have "\<forall>k p. products st' k = Some p \<longrightarrow> 0 \<le> stock p"
        by (auto split: if_splits)
      with Pair Movement Inr r show ?thesis by simp
    qed
  qed
qed

lemma run_stock_ops_keeps_stock_nonneg:
  assumes "\<forall>k p. products st k = Some p \<longrightarrow> 0 \<le> stock p"
  shows "\<forall>k p. products (run_stock_ops st ops) k = Some p \<longrightarrow> 0 \<le> stock p"
  using assms unfolding run_stock_ops_def
proof (induction ops arbitrary: st)
  case Nil
  then show ?case by simp
next
  case (Cons x ops)
  from Cons.IH[OF stock_step_keeps_stock_nonneg[OF Cons.prems, of x]]
  show ?case by simp
qed

text \<open>
  C1. Start from a database in which no product has a negative stock, and run any
  sequence of \<open>adjust_stock\<close> calls and \<open>StockMovement\<close> saves, with any quantities, on
  any products. After each operation of the sequence, that is after every initial part of
  it, every product of the database has a stock that is not negative. The calls that
  would take a stock below zero are refused by the database and change nothing.
\<close>

theorem stock_never_negative:
  assumes "\<forall>k p. products st k = Some p \<longrightarrow> 0 \<le> stock p"
  shows "\<forall>n k p. products (run_stock_ops st (take n ops)) k = Some p \<longrightarrow> 0 \<le> stock p"
  using run_stock_ops_keeps_stock_nonneg[OF assms] by blast

text \<open>
  On the example: the movement of fifteen units out of ten and the call adding -15 are
  refused, the removal of three units and the movement of four units in are written, and
  the stock is 10, 10, 7 and 11 after the four operations.
\<close>

theorem stock_never_negative_witness:
  "StockMovement_save example_store example_movement 5 = Inl IntegrityError
   \<and> adjust_stock_checked example_store example_product (- 15) ''add'' 6 = Inl IntegrityError
   \<and> map (\<lambda>n. map_option stock (products (run_stock_ops example_store (take n example_ops)) 1))
          [1, 2, 3, 4]
       = [Some 10, Some 10, Some 7, Some 11]
   \<and> (\<exists>p. products (run_stock_ops example_store (take 4 example_ops)) 1 = Some p
          \<and> 0 \<le> stock p)"
proof -
  have h: "\<forall>k p. products example_store k = Some p \<longrightarrow> 0 \<le> stock p"
    by (simp add: example_store_def example_product_def)
  have a: "StockMovement_save example_store example_movement 5 = Inl IntegrityError"
    by (simp add: StockMovement_save_def Product_save_checked_def example_store_def
          example_movement_def example_product_def Let_def)
  have b: "adjust_stock_checked example_store example_product (- 15) ''add'' 6
             = Inl IntegrityError"
    by (simp add: adjust_stock_checked_def adjust_stock_def Product_save_def
          example_product_def Let_def)
  have c: "map (\<lambda>n. map_option stock
                     (products (run_stock_ops example_store (take n example_ops)) 1))
               [1, 2, 3, 4]
             = [Some 10, Some 10, Some 7, Some 11]"
    by (simp add: run_stock_ops_def example_ops_def restock_movement_def
          StockMovement_save_def Product_save_checked_def adjust_stock_checked_def
          adjust_stock_def Product_save_def example_store_def example_movement_def
          example_product_def Let_def)
  then have "\<exists>p. products (run_stock_ops example_store (take 4 example_ops)) 1 = Some p"
    by auto
  with stock_never_negative[OF h, of example_ops]
  have "\<exists>p. products (run_stock_ops example_store (take 4 example_ops)) 1 = Some p
          \<and> 0 \<le> stock p" by blast
  with a b c show ?thesis by blast
qed

section \<open>Reviews\<close>

lemmas ex_defs = example_product_def example_cart_def example_store_def rated_product_def
  rated_review_def rated_store_def second_review_def hidden_review_def stale_store_def
  second_saved_def two_store_def delivered_order_def purchased_item_def order_store_def
  buyer_review_def nearest_hundredth_def stranger_review_def shipped_store_def

lemmas review_defs = report_def Review_save_def verify_purchase_def Review_super_save_def
  update_product_rating_def visible_reviews_def Product_save_def Avg_def Let_def

text \<open>What the three steps of \<^verbatim>\<open>Review.save()\<close> change, one step at a time.\<close>

lemma Review_super_save_props:
  assumes "Review_super_save st self now = (self', st')"
  shows "self' \<in> set (reviews st')" "products st' = products st" "orders st' = orders st"
    "is_verified_purchase self' = is_verified_purchase self"
    "review_product self' = review_product self"
    "reported_count self' = reported_count self"
    "is_visible self' = is_visible self"
    "moderation_notes self' = moderation_notes self"
  using assms
  by (auto simp: Review_super_save_def Let_def split: option.splits if_splits)

lemma update_product_rating_reviews:
  assumes "update_product_rating round2 st self now = Inr st'"
  shows "reviews st' = reviews st"
  using assms
  by (auto simp: update_product_rating_def Product_save_def Let_def
           split: option.splits if_splits)

lemma update_product_rating_total:
  assumes "products st (review_product self) \<noteq> None"
  shows "\<exists>st'. update_product_rating round2 st self now = Inr st'"
  using assms
  by (auto simp: update_product_rating_def Product_save_def Let_def
           split: option.splits if_splits)

lemma verify_purchase_props:
  assumes "verify_purchase st self = Inr self1"
  shows "review_product self1 = review_product self"
    "reported_count self1 = reported_count self"
    "is_visible self1 = is_visible self"
    "moderation_notes self1 = moderation_notes self"
    "is_verified_purchase self \<longrightarrow> is_verified_purchase self1"
  using assms
  by (auto simp: verify_purchase_def split: option.splits if_splits)

lemma verify_purchase_total:
  assumes "review_refs_ok st self"
  shows "\<exists>self1. verify_purchase st self = Inr self1"
  using assms
  by (auto simp: verify_purchase_def review_refs_ok_def split: option.splits if_splits)

lemma verify_purchase_sets:
  assumes "verify_purchase st self = Inr self1"
    and "order_item self = Some item" "orders st (oi_order item) = Some ord"
    and "order_user ord = review_user self" "order_status ord = ''delivered''"
    and "oi_product item = review_product self"
  shows "is_verified_purchase self1"
  using assms
  by (auto simp: verify_purchase_def split: option.splits if_splits)

lemma verify_purchase_only:
  assumes "verify_purchase st self = Inr self1" and "is_verified_purchase self1"
  shows "is_verified_purchase self
       \<or> (\<exists>item ord p1 p2. order_item self = Some item
              \<and> orders st (oi_order item) = Some ord
              \<and> order_status ord = ''delivered'' \<and> order_user ord = review_user self
              \<and> products st (oi_product item) = Some p1
              \<and> products st (review_product self) = Some p2
              \<and> product_id p1 = product_id p2)"
  using assms
  by (auto simp: verify_purchase_def split: option.splits if_splits)

lemma Review_save_Inr:
  assumes "Review_save round2 st self now = Inr (self', st')"
  obtains self1 st1 where "verify_purchase st self = Inr self1"
    "Review_super_save st self1 now = (self', st1)"
    "update_product_rating round2 st1 self' now = Inr st'"
  using assms
  by (auto simp: Review_save_def Let_def split: sum.splits prod.splits)

text \<open>With its foreign keys in place, \<^verbatim>\<open>Review.save()\<close> returns.\<close>

lemma Review_save_total:
  assumes "review_refs_ok st self"
  shows "\<exists>self' st'. Review_save round2 st self now = Inr (self', st')"
proof -
  from verify_purchase_total[OF assms] obtain self1
    where v: "verify_purchase st self = Inr self1" ..
  obtain self2 st1 where s: "Review_super_save st self1 now = (self2, st1)" by force
  from assms have "products st (review_product self) \<noteq> None"
    by (simp add: review_refs_ok_def)
  with Review_super_save_props(2,5)[OF s] verify_purchase_props(1)[OF v]
  have "products st1 (review_product self2) \<noteq> None" by simp
  from update_product_rating_total[OF this] obtain st2
    where "update_product_rating round2 st1 self2 now = Inr st2" ..
  with v s show ?thesis by (simp add: Review_save_def)
qed

lemma review_refs_ok_cong:
  assumes "review_refs_ok st self" "review_product self2 = review_product self"
    "order_item self2 = order_item self"
  shows "review_refs_ok st self2"
  using assms by (simp add: review_refs_ok_def)

text \<open>
  C10. When the product of the review has no visible review,
  \<^verbatim>\<open>update_product_rating()\<close> returns without writing anything: the database, and with it
  the product's \<open>average_rating\<close> and \<open>total_reviews\<close>, is what it was.
\<close>

theorem update_product_rating_no_visible:
  assumes "products st (review_product self) = Some product"
      and "visible_reviews st (product_id product) = []"
  shows "update_product_rating round2 st self now = Inr st"
  using assms by (simp add: update_product_rating_def)

theorem update_product_rating_no_visible_witness:
  "products stale_store (review_product hidden_review) = Some rated_product
   \<and> visible_reviews stale_store (product_id rated_product) = []
   \<and> update_product_rating nearest_hundredth stale_store hidden_review 6 = Inr stale_store
   \<and> map_option average_rating (products stale_store 1) = Some 400
   \<and> map_option total_reviews (products stale_store 1) = Some 1"
proof -
  have h: "products stale_store (review_product hidden_review) = Some rated_product"
    "visible_reviews stale_store (product_id rated_product) = []"
    by (simp_all add: ex_defs visible_reviews_def)
  have "map_option average_rating (products stale_store 1) = Some 400"
    "map_option total_reviews (products stale_store 1) = Some 1"
    by (simp_all add: ex_defs)
  with h update_product_rating_no_visible[OF h, of nearest_hundredth 6] show ?thesis
    by simp
qed

text \<open>
  C7. A save of a review whose foreign keys resolve returns, and the saved review is
  marked as a verified purchase if it was so marked before the save, or if it refers to an
  order item of the reviewed product whose order is delivered and belongs to the reviewer.
  So no save takes the mark away. The save sets the mark in no other case: a review that
  is marked after the save was marked before it, or refers to an order item whose order
  is delivered and belongs to the reviewer and whose product has the key of the reviewed
  product. In a database whose products are stored under their keys, the saved review is
  marked exactly when it was marked before or the three conditions hold.
\<close>

theorem Review_save_verified_purchase:
  assumes "review_refs_ok st self"
  shows "\<exists>self' st'. Review_save round2 st self now = Inr (self', st')
      \<and> self' \<in> set (reviews st')
      \<and> (is_verified_purchase self \<longrightarrow> is_verified_purchase self')
      \<and> (\<forall>item ord. order_item self = Some item \<and> orders st (oi_order item) = Some ord
            \<and> order_status ord = ''delivered'' \<and> order_user ord = review_user self
            \<and> oi_product item = review_product self \<longrightarrow> is_verified_purchase self')
      \<and> (is_verified_purchase self' \<longrightarrow>
            is_verified_purchase self
            \<or> (\<exists>item ord p1 p2. order_item self = Some item
                  \<and> orders st (oi_order item) = Some ord
                  \<and> order_status ord = ''delivered'' \<and> order_user ord = review_user self
                  \<and> products st (oi_product item) = Some p1
                  \<and> products st (review_product self) = Some p2
                  \<and> product_id p1 = product_id p2))
      \<and> (pk_consistent st \<longrightarrow>
            (is_verified_purchase self' \<longleftrightarrow>
               is_verified_purchase self
               \<or> (\<exists>item ord. order_item self = Some item
                     \<and> orders st (oi_order item) = Some ord
                     \<and> order_status ord = ''delivered'' \<and> order_user ord = review_user self
                     \<and> oi_product item = review_product self)))"
proof -
  from Review_save_total[OF assms] obtain self' st'
    where r: "Review_save round2 st self now = Inr (self', st')" by blast
  from r obtain self1 st1 where v: "verify_purchase st self = Inr self1"
    and s: "Review_super_save st self1 now = (self', st1)"
    and u: "update_product_rating round2 st1 self' now = Inr st'"
    by (rule Review_save_Inr)
  have eq: "is_verified_purchase self' = is_verified_purchase self1"
    by (rule Review_super_save_props(4)[OF s])
  have mem: "self' \<in> set (reviews st')"
    using Review_super_save_props(1)[OF s] update_product_rating_reviews[OF u] by simp
  have keep: "is_verified_purchase self \<longrightarrow> is_verified_purchase self'"
    using verify_purchase_props(5)[OF v] eq by simp
  have sets: "\<forall>item ord. order_item self = Some item
            \<and> orders st (oi_order item) = Some ord
            \<and> order_status ord = ''delivered'' \<and> order_user ord = review_user self
            \<and> oi_product item = review_product self \<longrightarrow> is_verified_purchase self'"
    using verify_purchase_sets[OF v] eq by blast
  have only: "is_verified_purchase self' \<longrightarrow>
            is_verified_purchase self
            \<or> (\<exists>item ord p1 p2. order_item self = Some item
                  \<and> orders st (oi_order item) = Some ord
                  \<and> order_status ord = ''delivered'' \<and> order_user ord = review_user self
                  \<and> products st (oi_product item) = Some p1
                  \<and> products st (review_product self) = Some p2
                  \<and> product_id p1 = product_id p2)"
    using verify_purchase_only[OF v] eq by simp
  have exact: "pk_consistent st \<longrightarrow>
            (is_verified_purchase self' \<longleftrightarrow>
               is_verified_purchase self
               \<or> (\<exists>item ord. order_item self = Some item
                     \<and> orders st (oi_order item) = Some ord
                     \<and> order_status ord = ''delivered'' \<and> order_user ord = review_user self
                     \<and> oi_product item = review_product self))"
  proof
    assume c: "pk_consistent st"
    show "is_verified_purchase self' \<longleftrightarrow>
               is_verified_purchase self
               \<or> (\<exists>item ord. order_item self = Some item
                     \<and> orders st (oi_order item) = Some ord
                     \<and> order_status ord = ''delivered'' \<and> order_user ord = review_user self
                     \<and> oi_product item = review_product self)"
    proof
      assume "is_verified_purchase self'"
      with only consider "is_verified_purchase self"
        | item ord p1 p2 where "order_item self = Some item"
            "orders st (oi_order item) = Some ord" "order_status ord = ''delivered''"
            "order_user ord = review_user self" "products st (oi_product item) = Some p1"
            "products st (review_product self) = Some p2" "product_id p1 = product_id p2"
        by blast
      then show "is_verified_purchase self
               \<or> (\<exists>item ord. order_item self = Some item
                     \<and> orders st (oi_order item) = Some ord
                     \<and> order_status ord = ''delivered'' \<and> order_user ord = review_user self
                     \<and> oi_product item = review_product self)"
      proof cases
        case 1
        then show ?thesis by simp
      next
        case 2
        from c 2(5,6,7) have "oi_product item = review_product self"
          by (simp add: pk_consistent_def)
        with 2(1-4) show ?thesis by blast
      qed
    next
      assume "is_verified_purchase self
               \<or> (\<exists>item ord. order_item self = Some item
                     \<and> orders st (oi_order item) = Some ord
                     \<and> order_status ord = ''delivered'' \<and> order_user ord = review_user self
                     \<and> oi_product item = review_product self)"
      with keep sets show "is_verified_purchase self'" by blast
    qed
  qed
  from r mem keep sets only exact show ?thesis by blast
qed

text \<open>
  The buyer's review becomes verified when saved; saved again without its order item, it
  stays verified. The same review by a user who did not place the order, or of an order
  that is not delivered yet, is saved unverified.
\<close>

theorem Review_save_verified_purchase_witness:
  "review_refs_ok order_store buyer_review
   \<and> (\<exists>self' st'. Review_save nearest_hundredth order_store buyer_review 5 = Inr (self', st')
         \<and> self' \<in> set (reviews st') \<and> is_verified_purchase self')
   \<and> review_refs_ok order_store (second_review\<lparr>is_verified_purchase := True\<rparr>)
   \<and> (\<exists>self' st'. Review_save nearest_hundredth order_store
                     (second_review\<lparr>is_verified_purchase := True\<rparr>) 5 = Inr (self', st')
         \<and> self' \<in> set (reviews st') \<and> is_verified_purchase self')
   \<and> review_refs_ok order_store stranger_review
   \<and> (\<exists>self' st'. Review_save nearest_hundredth order_store stranger_review 5
                     = Inr (self', st')
         \<and> self' \<in> set (reviews st') \<and> \<not> is_verified_purchase self')
   \<and> review_refs_ok shipped_store buyer_review
   \<and> (\<exists>self' st'. Review_save nearest_hundredth shipped_store buyer_review 5
                     = Inr (self', st')
         \<and> self' \<in> set (reviews st') \<and> \<not> is_verified_purchase self')"
proof -
  have ok: "review_refs_ok order_store buyer_review"
    by (simp add: ex_defs review_refs_ok_def)
  have d: "order_item buyer_review = Some purchased_item
     \<and> orders order_store (oi_order purchased_item) = Some delivered_order
     \<and> order_status delivered_order = ''delivered''
     \<and> order_user delivered_order = review_user buyer_review
     \<and> oi_product purchased_item = review_product buyer_review"
    by (simp add: ex_defs)
  have ok2: "review_refs_ok order_store (second_review\<lparr>is_verified_purchase := True\<rparr>)"
    by (simp add: ex_defs review_refs_ok_def)
  have v: "is_verified_purchase (second_review\<lparr>is_verified_purchase := True\<rparr>)"
    by simp
  have ok3: "review_refs_ok order_store stranger_review"
    by (simp add: ex_defs review_refs_ok_def)
  have n3: "\<not> is_verified_purchase stranger_review"
    "\<not> (\<exists>item ord p1 p2. order_item stranger_review = Some item
                  \<and> orders order_store (oi_order item) = Some ord
                  \<and> order_status ord = ''delivered''
                  \<and> order_user ord = review_user stranger_review
                  \<and> products order_store (oi_product item) = Some p1
                  \<and> products order_store (review_product stranger_review) = Some p2
                  \<and> product_id p1 = product_id p2)"
    by (simp_all add: ex_defs)
  have ok4: "review_refs_ok shipped_store buyer_review"
    by (simp add: ex_defs review_refs_ok_def)
  have n4: "\<not> is_verified_purchase buyer_review"
    "\<not> (\<exists>item ord p1 p2. order_item buyer_review = Some item
                  \<and> orders shipped_store (oi_order item) = Some ord
                  \<and> order_status ord = ''delivered''
                  \<and> order_user ord = review_user buyer_review
                  \<and> products shipped_store (oi_product item) = Some p1
                  \<and> products shipped_store (review_product buyer_review) = Some p2
                  \<and> product_id p1 = product_id p2)"
    by (simp_all add: ex_defs)
  from Review_save_verified_purchase[OF ok, of nearest_hundredth 5] d
  have a: "\<exists>self' st'. Review_save nearest_hundredth order_store buyer_review 5
                         = Inr (self', st')
         \<and> self' \<in> set (reviews st') \<and> is_verified_purchase self'"
    by blast
  from Review_save_verified_purchase[OF ok2, of nearest_hundredth 5] v
  have b: "\<exists>self' st'. Review_save nearest_hundredth order_store
                     (second_review\<lparr>is_verified_purchase := True\<rparr>) 5 = Inr (self', st')
         \<and> self' \<in> set (reviews st') \<and> is_verified_purchase self'"
    by blast
  from Review_save_verified_purchase[OF ok3, of nearest_hundredth 5] n3
  have c: "\<exists>self' st'. Review_save nearest_hundredth order_store stranger_review 5
                     = Inr (self', st')
         \<and> self' \<in> set (reviews st') \<and> \<not> is_verified_purchase self'"
    by blast
  from Review_save_verified_purchase[OF ok4, of nearest_hundredth 5] n4
  have e: "\<exists>self' st'. Review_save nearest_hundredth shipped_store buyer_review 5
                     = Inr (self', st')
         \<and> self' \<in> set (reviews st') \<and> \<not> is_verified_purchase self'"
    by blast
  from ok ok2 ok3 ok4 a b c e show ?thesis by blast
qed

text \<open>
  C9. A call of \<^verbatim>\<open>Review.report()\<close> on a review whose foreign keys resolve returns, and
  the saved review has one report more. If that makes five or more, the review is hidden
  and the moderation note is appended to its notes; otherwise visibility and notes are
  what they were.
\<close>

theorem report_counts_and_hides:
  assumes "review_refs_ok st self"
  shows "\<exists>self' st'. report round2 st self now = Inr (self', st')
     \<and> self' \<in> set (reviews st')
     \<and> reported_count self' = reported_count self + 1
     \<and> (if reported_count self + 1 \<ge> 5
        then \<not> is_visible self'
           \<and> moderation_notes self'
               = moderation_notes self @ (CHR 0x0A # ''Auto-hidden due to multiple reports.'')
        else is_visible self' = is_visible self
           \<and> moderation_notes self' = moderation_notes self)"
proof -
  define self2 where "self2 =
    (if reported_count self + 1 \<ge> 5 then
       self\<lparr>reported_count := reported_count self + 1, is_visible := False,
            moderation_notes := moderation_notes self
               @ (CHR 0x0A # ''Auto-hidden due to multiple reports.'')\<rparr>
     else self\<lparr>reported_count := reported_count self + 1\<rparr>)"
  have rep: "report round2 st self now = Review_save round2 st self2 now"
    by (simp add: report_def self2_def Let_def)
  have ok2: "review_refs_ok st self2"
    by (rule review_refs_ok_cong[OF assms]) (simp_all add: self2_def)
  from Review_save_total[OF ok2] obtain self' st'
    where r: "Review_save round2 st self2 now = Inr (self', st')" by blast
  from r obtain self1 st1 where v: "verify_purchase st self2 = Inr self1"
    and s: "Review_super_save st self1 now = (self', st1)"
    and u: "update_product_rating round2 st1 self' now = Inr st'"
    by (rule Review_save_Inr)
  have mem: "self' \<in> set (reviews st')"
    using Review_super_save_props(1)[OF s] update_product_rating_reviews[OF u] by simp
  have cnt: "reported_count self' = reported_count self2"
    and vis: "is_visible self' = is_visible self2"
    and nts: "moderation_notes self' = moderation_notes self2"
    using verify_purchase_props(2,3,4)[OF v] Review_super_save_props(6,7,8)[OF s]
    by simp_all
  show ?thesis
    using rep r mem cnt vis nts by (simp add: self2_def)
qed

text \<open>A fifth report hides the review; a first report of another one does not.\<close>

theorem report_counts_and_hides_witness:
  "review_refs_ok rated_store rated_review
   \<and> (\<exists>self' st'. report nearest_hundredth rated_store rated_review 5 = Inr (self', st')
         \<and> self' \<in> set (reviews st') \<and> reported_count self' = 5 \<and> \<not> is_visible self'
         \<and> moderation_notes self' = CHR 0x0A # ''Auto-hidden due to multiple reports.'')
   \<and> review_refs_ok rated_store second_review
   \<and> (\<exists>self' st'. report nearest_hundredth rated_store second_review 5 = Inr (self', st')
         \<and> self' \<in> set (reviews st') \<and> reported_count self' = 1 \<and> is_visible self'
         \<and> moderation_notes self' = [])"
proof -
  have ok: "review_refs_ok rated_store rated_review"
    and ok2: "review_refs_ok rated_store second_review"
    by (simp_all add: ex_defs review_refs_ok_def)
  have f: "reported_count rated_review = 4" "moderation_notes rated_review = []"
    "reported_count second_review = 0" "moderation_notes second_review = []"
    "is_visible second_review"
    by (simp_all add: ex_defs)
  from report_counts_and_hides[OF ok, of nearest_hundredth 5] f
  have a: "\<exists>self' st'. report nearest_hundredth rated_store rated_review 5 = Inr (self', st')
         \<and> self' \<in> set (reviews st') \<and> reported_count self' = 5 \<and> \<not> is_visible self'
         \<and> moderation_notes self' = CHR 0x0A # ''Auto-hidden due to multiple reports.''"
    by simp
  from report_counts_and_hides[OF ok2, of nearest_hundredth 5] f
  have b: "\<exists>self' st'. report nearest_hundredth rated_store second_review 5
                         = Inr (self', st')
         \<and> self' \<in> set (reviews st') \<and> reported_count self' = 1 \<and> is_visible self'
         \<and> moderation_notes self' = []"
    by simp
  from ok ok2 a b show ?thesis by blast
qed

text \<open>
  C6. The claim is that after every save of a review the product's \<open>average_rating\<close> is
  the rounded mean of its visible reviews and \<open>total_reviews\<close> their number. It fails when
  the save leaves the product without a visible review: the fifth report of the product's
  only review hides it, and the product keeps the rating 4.00 and the count 1 of the
  review that is no longer visible.
\<close>

theorem Review_save_rating_counterexample:
  "report nearest_hundredth rated_store rated_review 5 = Inr (hidden_review, stale_store)
   \<and> visible_reviews stale_store 1 = []
   \<and> map_option total_reviews (products stale_store 1) = Some 1
   \<and> map_option total_reviews (products stale_store 1)
       \<noteq> Some (int (length (visible_reviews stale_store 1)))
   \<and> map_option average_rating (products stale_store 1) = Some 400"
  by (simp add: ex_defs review_defs)

text \<open>
  C6, amended. After a save of a review, if its product then has at least one visible
  review, the product's \<open>average_rating\<close> is the rounded mean of the ratings of the
  product's visible reviews and \<open>total_reviews\<close> is their number; a hidden review is not
  among them. If the product has no visible review, the table of products is what it was
  before the save.
\<close>

theorem Review_save_rating:
  assumes "Review_save round2 st self now = Inr (self', st')"
  shows "\<exists>product. products st (review_product self) = Some product
     \<and> self' \<in> set (reviews st')
     \<and> (let revs = filter (\<lambda>r. review_product r = product_id product \<and> is_visible r)
                          (reviews st')
        in if revs \<noteq> []
           then \<exists>product'. products st' (product_id product) = Some product'
                  \<and> average_rating product' = round2 (Avg (map rating revs))
                  \<and> total_reviews product' = int (length revs)
           else products st' = products st)"
proof -
  from assms obtain self1 st1 where v: "verify_purchase st self = Inr self1"
    and s: "Review_super_save st self1 now = (self', st1)"
    and u: "update_product_rating round2 st1 self' now = Inr st'"
    by (rule Review_save_Inr)
  have p1: "products st1 = products st"
    and rp: "review_product self' = review_product self"
    using Review_super_save_props(2,5)[OF s] verify_purchase_props(1)[OF v] by simp_all
  from u obtain product where p: "products st1 (review_product self') = Some product"
    by (auto simp: update_product_rating_def split: option.splits)
  have mem: "self' \<in> set (reviews st')"
    using Review_super_save_props(1)[OF s] update_product_rating_reviews[OF u] by simp
  have rv: "reviews st' = reviews st1" by (rule update_product_rating_reviews[OF u])
  have "let revs = filter (\<lambda>r. review_product r = product_id product \<and> is_visible r)
                          (reviews st')
        in if revs \<noteq> []
           then \<exists>product'. products st' (product_id product) = Some product'
                  \<and> average_rating product' = round2 (Avg (map rating revs))
                  \<and> total_reviews product' = int (length revs)
           else products st' = products st"
    using u p p1 rv
    by (auto simp: update_product_rating_def visible_reviews_def Product_save_def Let_def
             split: if_splits)
  with p p1 rp mem show ?thesis by auto
qed

text \<open>
  Saving the second review, five stars beside the four of the first: the product's rating
  becomes 4.50 over two reviews.
\<close>

theorem Review_save_rating_witness:
  "Review_save nearest_hundredth rated_store second_review 5 = Inr (second_saved, two_store)
   \<and> second_saved \<in> set (reviews two_store)
   \<and> map_option average_rating (products two_store 1) = Some 450
   \<and> map_option total_reviews (products two_store 1) = Some 2"
proof -
  have h: "Review_save nearest_hundredth rated_store second_review 5
             = Inr (second_saved, two_store)"
    by (simp add: ex_defs review_defs)
  from Review_save_rating[OF h] h show ?thesis
    by (simp add: ex_defs Avg_def)
qed

section \<open>Checkout\<close>

lemmas ex2_defs = scarce_store_def example_order_def checked_out_cart_def checked_out_store_def
lemmas co_defs = checkout_def Cart_items_def total_price_def CartItem_subtotal_def
  Order_objects_create_def OrderItem_objects_create_def adjust_stock_def Product_save_def
  Cart_save_def Let_def

text \<open>The two outcomes of the first loop of \<^verbatim>\<open>Cart.checkout()\<close>.\<close>

lemma check_stock_None:
  assumes "check_stock st items = Inr None"
  shows "\<forall>item \<in> set items. \<exists>p. products st (ci_product item) = Some p
           \<and> available p \<and> ci_quantity item \<le> stock p"
  using assms
  by (induction items) (auto split: option.splits if_splits)

lemma check_stock_Some:
  assumes "\<forall>item \<in> set items. products st (ci_product item) \<noteq> None"
    and "\<exists>item \<in> set items. \<exists>p. products st (ci_product item) = Some p
           \<and> \<not> (available p \<and> ci_quantity item \<le> stock p)"
  shows "\<exists>item \<in> set items. \<exists>p. products st (ci_product item) = Some p
           \<and> \<not> (available p \<and> ci_quantity item \<le> stock p)
           \<and> check_stock st items
               = Inr (Some (if \<not> available p
                            then ''Product '' @ name p @ '' is not available''
                            else ''Insufficient stock for '' @ name p))"
  using assms
proof (induction items)
  case Nil
  then show ?case by simp
next
  case (Cons item items)
  from Cons.prems(1) obtain p where p: "products st (ci_product item) = Some p" by auto
  show ?case
  proof (cases "available p \<and> ci_quantity item \<le> stock p")
    case True
    with p Cons.prems have "\<exists>item \<in> set items. \<exists>p. products st (ci_product item) = Some p
           \<and> \<not> (available p \<and> ci_quantity item \<le> stock p)" by auto
    moreover from Cons.prems(1)
    have "\<forall>item \<in> set items. products st (ci_product item) \<noteq> None" by simp
    ultimately obtain item' p' where "item' \<in> set items"
      "products st (ci_product item') = Some p'"
      "\<not> (available p' \<and> ci_quantity item' \<le> stock p')"
      "check_stock st items
               = Inr (Some (if \<not> available p'
                            then ''Product '' @ name p' @ '' is not available''
                            else ''Insufficient stock for '' @ name p'))"
      using Cons.IH by blast
    moreover from True p have "check_stock st (item # items) = check_stock st items"
      by simp
    ultimately show ?thesis by (metis list.set_intros(2))
  next
    case False
    with p have "check_stock st (item # items)
               = Inr (Some (if \<not> available p
                            then ''Product '' @ name p @ '' is not available''
                            else ''Insufficient stock for '' @ name p))" by auto
    with p False show ?thesis by (metis list.set_intros(1))
  qed
qed

lemma checkout_True:
  assumes "checkout st self now = Inr ((True, result), self', st')"
  shows "check_stock st (Cart_items st self) = Inr None"
  using assms
  by (auto simp: checkout_def Let_def split: sum.splits option.splits prod.splits)

lemma checkout_Some:
  assumes "check_stock st (Cart_items st self) = Inr (Some msg)"
  shows "checkout st self now = Inr ((False, Msg msg), self, st)"
  using assms by (simp add: checkout_def)

text \<open>
  C2. Take a cart whose lines all refer to products in the database. If
  \<^verbatim>\<open>Cart.checkout()\<close> returns \<^verbatim>\<open>(True, order)\<close>, every line's product is available and
  holds at least the line's quantity in stock. If some line's product is unavailable or
  short of stock, checkout returns \<^verbatim>\<open>(False, message)\<close> for such a line, the message
  carrying the name of that line's product, and the cart instance and the whole database,
  so the cart's items and status and every product's stock, are what they were.
\<close>

theorem checkout_validates:
  assumes "\<forall>item \<in> set (Cart_items st self). products st (ci_product item) \<noteq> None"
  shows "(\<forall>result self' st'. checkout st self now = Inr ((True, result), self', st') \<longrightarrow>
            (\<forall>item \<in> set (Cart_items st self). \<exists>p. products st (ci_product item) = Some p
                 \<and> available p \<and> ci_quantity item \<le> stock p))
       \<and> ((\<exists>item \<in> set (Cart_items st self). \<exists>p. products st (ci_product item) = Some p
                 \<and> \<not> (available p \<and> ci_quantity item \<le> stock p)) \<longrightarrow>
            (\<exists>item \<in> set (Cart_items st self). \<exists>p. products st (ci_product item) = Some p
                 \<and> \<not> (available p \<and> ci_quantity item \<le> stock p)
                 \<and> checkout st self now
                     = Inr ((False, Msg (if \<not> available p
                                         then ''Product '' @ name p @ '' is not available''
                                         else ''Insufficient stock for '' @ name p)),
                            self, st)))"
proof (intro conjI allI impI)
  fix result self' st'
  assume "checkout st self now = Inr ((True, result), self', st')"
  from check_stock_None[OF checkout_True[OF this]]
  show "\<forall>item \<in> set (Cart_items st self). \<exists>p. products st (ci_product item) = Some p
                 \<and> available p \<and> ci_quantity item \<le> stock p" .
next
  assume "\<exists>item \<in> set (Cart_items st self). \<exists>p. products st (ci_product item) = Some p
                 \<and> \<not> (available p \<and> ci_quantity item \<le> stock p)"
  from check_stock_Some[OF assms this] obtain item p
    where i: "item \<in> set (Cart_items st self)" and p: "products st (ci_product item) = Some p"
      and b: "\<not> (available p \<and> ci_quantity item \<le> stock p)"
      and c: "check_stock st (Cart_items st self)
               = Inr (Some (if \<not> available p
                            then ''Product '' @ name p @ '' is not available''
                            else ''Insufficient stock for '' @ name p))" by blast
  from checkout_Some[OF c] i p b
  show "\<exists>item \<in> set (Cart_items st self). \<exists>p. products st (ci_product item) = Some p
                 \<and> \<not> (available p \<and> ci_quantity item \<le> stock p)
                 \<and> checkout st self now
                     = Inr ((False, Msg (if \<not> available p
                                         then ''Product '' @ name p @ '' is not available''
                                         else ''Insufficient stock for '' @ name p)),
                            self, st)" by blast
qed

theorem checkout_validates_witness:
  "checkout example_store example_cart 5
       = Inr ((True, Ord example_order), checked_out_cart, checked_out_store)
   \<and> map ci_quantity (Cart_items example_store example_cart) = [3]
   \<and> map_option available (products example_store 1) = Some True
   \<and> map_option stock (products example_store 1) = Some 10
   \<and> checkout scarce_store example_cart 5
       = Inr ((False, Msg ''Insufficient stock for Test Product''), example_cart, scarce_store)"
proof -
  have fk: "\<forall>item \<in> set (Cart_items example_store example_cart).
        products example_store (ci_product item) \<noteq> None"
    and fk2: "\<forall>item \<in> set (Cart_items scarce_store example_cart).
        products scarce_store (ci_product item) \<noteq> None"
    by (simp_all add: ex_defs ex2_defs Cart_items_def)
  have ok: "checkout example_store example_cart 5
       = Inr ((True, Ord example_order), checked_out_cart, checked_out_store)"
    by (simp add: ex_defs ex2_defs co_defs)
  have bad: "\<exists>item \<in> set (Cart_items scarce_store example_cart).
        \<exists>p. products scarce_store (ci_product item) = Some p
           \<and> \<not> (available p \<and> ci_quantity item \<le> stock p)"
    by (simp add: ex_defs ex2_defs Cart_items_def)
  from checkout_validates[OF fk, of 5] ok
  have a: "\<forall>item \<in> set (Cart_items example_store example_cart).
        \<exists>p. products example_store (ci_product item) = Some p
           \<and> available p \<and> ci_quantity item \<le> stock p" by blast
  from checkout_validates[OF fk2, of 5] bad
  obtain item p where "item \<in> set (Cart_items scarce_store example_cart)"
    "products scarce_store (ci_product item) = Some p"
    "checkout scarce_store example_cart 5
                     = Inr ((False, Msg (if \<not> available p
                                         then ''Product '' @ name p @ '' is not available''
                                         else ''Insufficient stock for '' @ name p)),
                            example_cart, scarce_store)" by blast
  then have b: "checkout scarce_store example_cart 5
       = Inr ((False, Msg ''Insufficient stock for Test Product''), example_cart, scarce_store)"
    by (auto simp: ex_defs ex2_defs Cart_items_def)
  have "map ci_quantity (Cart_items example_store example_cart) = [3]"
    "map_option available (products example_store 1) = Some True"
    "map_option stock (products example_store 1) = Some 10"
    by (simp_all add: ex_defs Cart_items_def)
  with ok a b show ?thesis by blast
qed

text \<open>
  What \<open>adjust_stock\<close> leaves alone, and what the second loop of checkout adds to the
  database: one snapshot per cart line, at the end of the table of order items.
\<close>

lemma adjust_stock_frame:
  assumes "adjust_stock st p q operation now = (ok, p', st')"
  shows "orders st' = orders st" "order_items st' = order_items st" "carts st' = carts st"
    "cart_items st' = cart_items st" "next_order_id st' = next_order_id st"
    "products st' = products st \<or>
       (products st' = (products st)(product_id p \<mapsto> p') \<and> product_id p' = product_id p
        \<and> price p' = price p)"
  using assms
  by (auto simp: adjust_stock_def Product_save_def Let_def split: if_splits)

lemma adjust_stock_keeps:
  assumes "adjust_stock st p q operation now = (ok, p', st')"
    and "pk_consistent st" and "products st k = Some p"
  shows "pk_consistent st'"
    and "map_option price (products st' j) = map_option price (products st j)"
proof -
  from assms(2,3) have pid: "product_id p = k" by (simp add: pk_consistent_def)
  from adjust_stock_frame(6)[OF assms(1)] assms(2) pid
  show "pk_consistent st'" by (auto simp: pk_consistent_def split: if_splits)
  from adjust_stock_frame(6)[OF assms(1)] assms(3) pid
  show "map_option price (products st' j) = map_option price (products st j)" by auto
qed

lemma process_items_effect:
  assumes "process_items st ord items now = Inr st'" and "pk_consistent st"
  shows "\<exists>new. order_items st' = order_items st @ new
           \<and> list_all2 (snapshot_of st ord) items new
           \<and> orders st' = orders st \<and> carts st' = carts st
           \<and> cart_items st' = cart_items st"
  using assms
proof (induction items arbitrary: st)
  case Nil
  then show ?case by simp
next
  case (Cons item items)
  from Cons.prems(1) obtain p where p: "products st (ci_product item) = Some p"
    by (auto split: option.splits)
  define oi where "oi = \<lparr>oi_order = order_id ord, oi_product = ci_product item,
                        oi_quantity = ci_quantity item, oi_price = price p\<rparr>"
  define st1 where "st1 = OrderItem_objects_create st oi"
  obtain ok p' st2 where a: "adjust_stock st1 p (ci_quantity item) ''remove'' now = (ok, p', st2)"
    by (metis prod_cases3)
  from Cons.prems(1) p a have r: "process_items st2 ord items now = Inr st'"
    by (simp add: st1_def oi_def)
  have c1: "pk_consistent st1" and p1: "products st1 (ci_product item) = Some p"
    using Cons.prems(2) p by (simp_all add: st1_def OrderItem_objects_create_def pk_consistent_def)
  have c2: "pk_consistent st2" by (rule adjust_stock_keeps(1)[OF a c1 p1])
  have pr: "\<And>j. map_option price (products st2 j) = map_option price (products st j)"
    using adjust_stock_keeps(2)[OF a c1 p1] by (simp add: st1_def OrderItem_objects_create_def)
  from Cons.IH[OF r c2] obtain new where n: "order_items st' = order_items st2 @ new"
    "list_all2 (snapshot_of st2 ord) items new" "orders st' = orders st2"
    "carts st' = carts st2" "cart_items st' = cart_items st2" by blast
  have "snapshot_of st2 ord = snapshot_of st ord"
    by (intro ext) (simp only: snapshot_of_def pr)
  with n(2) have "list_all2 (snapshot_of st ord) items new" by simp
  moreover have "snapshot_of st ord item oi" using p by (simp add: snapshot_of_def oi_def)
  moreover have "order_items st' = order_items st @ (oi # new)"
    using n(1) adjust_stock_frame(2)[OF a] by (simp add: st1_def OrderItem_objects_create_def)
  moreover have "orders st' = orders st" "carts st' = carts st" "cart_items st' = cart_items st"
    using n(3,4,5) adjust_stock_frame(1,3,4)[OF a]
    by (simp_all add: st1_def OrderItem_objects_create_def)
  ultimately show ?case by (metis list_all2_Cons)
qed

lemma snapshot_total:
  assumes "list_all2 (snapshot_of st ord) items new" and "sum_subtotals st items = Inr t"
  shows "sum_list (map OrderItem_subtotal new) = t"
  using assms
proof (induction items new arbitrary: t rule: list_all2_induct)
  case Nil
  then show ?case by simp
next
  case (Cons item items oi new)
  from Cons.prems obtain x s where x: "CartItem_subtotal st item = Inr x"
    and s: "sum_subtotals st items = Inr s" and t: "t = x + s"
    by (auto split: sum.splits)
  from x Cons.hyps(1) have "OrderItem_subtotal oi = x"
    by (auto simp: CartItem_subtotal_def OrderItem_subtotal_def snapshot_of_def
             split: option.splits)
  with Cons.IH[OF s] t show ?case by simp
qed

lemma snapshot_order:
  assumes "list_all2 (snapshot_of st ord) items new"
  shows "filter (\<lambda>oi. oi_order oi = order_id ord) new = new"
  using assms by (induction rule: list_all2_induct) (simp_all add: snapshot_of_def)

lemma checkout_Inr_True:
  assumes "checkout st self now = Inr ((True, Ord ord), self', st')"
  obtains amount st2 where "total_price st self = Inr amount"
    "Order_objects_create st (cart_user self) amount now
       = (ord, st\<lparr>orders := (orders st)(next_order_id st \<mapsto> ord),
                  next_order_id := Suc (next_order_id st)\<rparr>)"
    "process_items (st\<lparr>orders := (orders st)(next_order_id st \<mapsto> ord),
                  next_order_id := Suc (next_order_id st)\<rparr>) ord (Cart_items st self) now = Inr st2"
    "Cart_save st2 (self\<lparr>cart_status := ''checked_out''\<rparr>) now = (self', st')"
    "order_id ord = next_order_id st" "total_amount ord = amount"
  using assms
  by (auto simp: checkout_def Order_objects_create_def Cart_items_def Let_def
           split: sum.splits option.splits prod.splits)

text \<open>
  C3. Let \<^verbatim>\<open>Cart.checkout()\<close> return \<^verbatim>\<open>(True, order)\<close> on a database whose products are
  stored under their keys and in which no order item refers to the key that the new order
  takes. Then the order is stored, its \<open>total_amount\<close> is the sum of the subtotals
  (price times quantity) of its order items, and these items copy, line by line, the
  product, the quantity and the price the product had when checkout was called. Neither
  the stored order nor its items depend on the table of products: they are the same
  whatever that table is changed to afterwards.
\<close>

theorem checkout_total_amount:
  assumes "checkout st self now = Inr ((True, Ord ord), self', st')"
    and "pk_consistent st"
    and "\<forall>oi \<in> set (order_items st). oi_order oi \<noteq> next_order_id st"
  shows "orders st' (order_id ord) = Some ord
       \<and> total_amount ord = sum_list (map OrderItem_subtotal (Order_items st' ord))
       \<and> list_all2 (\<lambda>item oi. oi_product oi = ci_product item
                       \<and> oi_quantity oi = ci_quantity item
                       \<and> map_option price (products st (ci_product item)) = Some (oi_price oi))
            (Cart_items st self) (Order_items st' ord)
       \<and> (\<forall>ps. orders (st'\<lparr>products := ps\<rparr>) (order_id ord) = Some ord
              \<and> Order_items (st'\<lparr>products := ps\<rparr>) ord = Order_items st' ord)"
proof -
  from assms(1) obtain amount st2 where tp: "total_price st self = Inr amount"
    and pi: "process_items (st\<lparr>orders := (orders st)(next_order_id st \<mapsto> ord),
                  next_order_id := Suc (next_order_id st)\<rparr>) ord (Cart_items st self) now = Inr st2"
    and cs: "Cart_save st2 (self\<lparr>cart_status := ''checked_out''\<rparr>) now = (self', st')"
    and oid: "order_id ord = next_order_id st" and ta: "total_amount ord = amount"
    by (rule checkout_Inr_True)
  define st1 where "st1 = st\<lparr>orders := (orders st)(next_order_id st \<mapsto> ord),
                  next_order_id := Suc (next_order_id st)\<rparr>"
  have c1: "pk_consistent st1" using assms(2) by (simp add: st1_def pk_consistent_def)
  from process_items_effect[OF pi[folded st1_def] c1] obtain new
    where n: "order_items st2 = order_items st1 @ new"
      "list_all2 (snapshot_of st1 ord) (Cart_items st self) new"
      "orders st2 = orders st1" by blast
  have "snapshot_of st1 ord = snapshot_of st ord"
    by (intro ext) (simp add: snapshot_of_def st1_def)
  with n(2) have sn: "list_all2 (snapshot_of st ord) (Cart_items st self) new" by simp
  have o': "orders st' = orders st2" and oi': "order_items st' = order_items st2"
    using cs by (auto simp: Cart_save_def Let_def)
  have items: "Order_items st' ord = new"
    using assms(3) snapshot_order[OF sn] oi' n(1) oid
    by (simp add: Order_items_def st1_def)
  have "orders st' (order_id ord) = Some ord"
    using o' n(3) oid by (simp add: st1_def)
  moreover have "total_amount ord = sum_list (map OrderItem_subtotal (Order_items st' ord))"
    using snapshot_total[OF sn tp[unfolded total_price_def]] ta items by simp
  moreover have "list_all2 (\<lambda>item oi. oi_product oi = ci_product item
                       \<and> oi_quantity oi = ci_quantity item
                       \<and> map_option price (products st (ci_product item)) = Some (oi_price oi))
            (Cart_items st self) (Order_items st' ord)"
    using sn items by (auto simp: snapshot_of_def[abs_def] elim: list_all2_mono)
  moreover have "\<forall>ps. orders (st'\<lparr>products := ps\<rparr>) (order_id ord) = Some ord
              \<and> Order_items (st'\<lparr>products := ps\<rparr>) ord = Order_items st' ord"
    using calculation(1) by (simp add: Order_items_def)
  ultimately show ?thesis by blast
qed

theorem checkout_total_amount_witness:
  "\<exists>ord self' st'. checkout order_store example_cart 5 = Inr ((True, Ord ord), self', st')
        \<and> orders st' (order_id ord) = Some ord
        \<and> total_amount ord = 15000
        \<and> sum_list (map OrderItem_subtotal (Order_items st' ord)) = 15000
        \<and> map oi_price (Order_items (st'\<lparr>products := Map.empty\<rparr>) ord) = [5000]"
proof -
  have c: "pk_consistent order_store"
    by (simp add: ex_defs pk_consistent_def)
  have f: "\<forall>oi \<in> set (order_items order_store). oi_order oi \<noteq> next_order_id order_store"
    by (simp add: ex_defs)
  obtain ord self' st' where h: "checkout order_store example_cart 5 = Inr ((True, Ord ord), self', st')"
    and t: "total_amount ord = 15000"
    by (simp add: ex_defs co_defs)
  from checkout_total_amount[OF h c f]
  have r: "orders st' (order_id ord) = Some ord"
    "total_amount ord = sum_list (map OrderItem_subtotal (Order_items st' ord))"
    "list_all2 (\<lambda>item oi. oi_product oi = ci_product item
                       \<and> oi_quantity oi = ci_quantity item
                       \<and> map_option price (products order_store (ci_product item)) = Some (oi_price oi))
            (Cart_items order_store example_cart) (Order_items st' ord)"
    "Order_items (st'\<lparr>products := Map.empty\<rparr>) ord = Order_items st' ord"
    by blast+
  from r(3) have "map oi_price (Order_items st' ord) = [5000]"
    by (auto simp: ex_defs Cart_items_def list_all2_Cons1)
  with h t r show ?thesis by auto
qed

text \<open>
  C8. The scenario of the claim: a product with ten units at 50.00 and a cart with three
  units of it. \<^verbatim>\<open>Cart.checkout()\<close> returns an order of 150.00, leaves seven units in stock
  and marks the cart \<^verbatim>\<open>checked_out\<close>, but the cart is not empty afterwards: its line of
  three units is still there, since the method never deletes the cart's items.
\<close>

theorem checkout_scenario:
  "checkout example_store example_cart 5
     = Inr ((True, Ord example_order), checked_out_cart, checked_out_store)
   \<and> total_amount example_order = 15000
   \<and> map_option stock (products checked_out_store 1) = Some 7
   \<and> cart_status checked_out_cart = ''checked_out''
   \<and> Cart_items checked_out_store checked_out_cart
       = [\<lparr>ci_cart = 1, ci_product = 1, ci_quantity = 3\<rparr>]"
  by (simp add: ex_defs ex2_defs co_defs)

section \<open>Cancellation\<close>

text \<open>
  \<open>adjust_stock\<close> with \<^verbatim>\<open>'add'\<close> always saves; the loop of \<^verbatim>\<open>Order.cancel_order()\<close>
  adds to each product the quantity that the items hold of it.
\<close>

lemma adjust_stock_add:
  "adjust_stock st p q ''add'' now
     = (True, p\<lparr>stock := stock p + q, updated := now, last_stock_update := now\<rparr>,
        st\<lparr>products := (products st)(product_id p \<mapsto>
               p\<lparr>stock := stock p + q, updated := now, last_stock_update := now\<rparr>)\<rparr>)"
  by (simp add: adjust_stock_def Product_save_def Let_def)

lemma restore_stock_effect:
  assumes "pk_consistent st"
    and "\<forall>item \<in> set items. products st (oi_product item) \<noteq> None"
  shows "\<exists>st'. restore_stock st items now = Inr st'
           \<and> (\<forall>k. map_option stock (products st' k)
                  = map_option (\<lambda>p. stock p + restored items k) (products st k))
           \<and> orders st' = orders st \<and> order_items st' = order_items st
           \<and> carts st' = carts st \<and> cart_items st' = cart_items st"
  using assms
proof (induction items arbitrary: st)
  case Nil
  then show ?case by (simp add: restored_def option.map_ident)
next
  case (Cons item items)
  from Cons.prems(2) obtain p where p: "products st (oi_product item) = Some p" by auto
  with Cons.prems(1) have pid: "product_id p = oi_product item"
    by (simp add: pk_consistent_def)
  define p' where "p' = p\<lparr>stock := stock p + oi_quantity item, updated := now,
                          last_stock_update := now\<rparr>"
  define st1 where "st1 = st\<lparr>products := (products st)(oi_product item \<mapsto> p')\<rparr>"
  have step: "restore_stock st (item # items) now = restore_stock st1 items now"
    using p pid by (simp add: adjust_stock_add st1_def p'_def)
  have c1: "pk_consistent st1"
    using Cons.prems(1) pid by (simp add: pk_consistent_def st1_def p'_def)
  have f1: "\<forall>item \<in> set items. products st1 (oi_product item) \<noteq> None"
    using Cons.prems(2) by (simp add: st1_def)
  from Cons.IH[OF c1 f1] obtain st' where r: "restore_stock st1 items now = Inr st'"
    and s: "\<And>k. map_option stock (products st' k)
                  = map_option (\<lambda>p. stock p + restored items k) (products st1 k)"
    and fr: "orders st' = orders st1" "order_items st' = order_items st1"
      "carts st' = carts st1" "cart_items st' = cart_items st1" by blast
  have "map_option stock (products st' k)
          = map_option (\<lambda>p. stock p + restored (item # items) k) (products st k)" for k
    using s[of k] p by (cases "k = oi_product item") (auto simp: st1_def p'_def restored_def)
  with step r fr show ?case by (simp add: st1_def)
qed

text \<open>
  C4. \<^verbatim>\<open>Order.cancel_order()\<close> on an order that is delivered, shipped or cancelled returns
  \<^verbatim>\<open>(False, "Order cannot be cancelled")\<close> and leaves the order and the database as they
  were. On an order that is pending or processing, in a database whose products are
  stored under their keys and hold the products of the order's items, it returns
  \<^verbatim>\<open>(True, ...)\<close>, the order is stored with status \<^verbatim>\<open>cancelled\<close>, and the stock of every
  product has grown by exactly the quantities of the order's items for that product.
\<close>

theorem cancel_order_restores:
  shows "(order_status self \<in> {''delivered'', ''shipped'', ''cancelled''} \<longrightarrow>
            cancel_order st self now = Inr ((False, ''Order cannot be cancelled''), self, st))
       \<and> (order_status self \<in> {''pending'', ''processing''} \<and> pk_consistent st
            \<and> (\<forall>item \<in> set (Order_items st self). products st (oi_product item) \<noteq> None) \<longrightarrow>
            (\<exists>self' st'. cancel_order st self now
                            = Inr ((True, ''Order cancelled successfully''), self', st')
               \<and> order_status self' = ''cancelled''
               \<and> orders st' (order_id self) = Some self'
               \<and> (\<forall>k. map_option stock (products st' k)
                      = map_option (\<lambda>p. stock p
                           + sum_list (map oi_quantity
                               (filter (\<lambda>item. oi_product item = k) (Order_items st self))))
                          (products st k))))"
proof (intro conjI impI)
  assume "order_status self \<in> {''delivered'', ''shipped'', ''cancelled''}"
  then have "\<not> can_cancel self" by (auto simp: can_cancel_def)
  then show "cancel_order st self now = Inr ((False, ''Order cannot be cancelled''), self, st)"
    by (simp add: cancel_order_def)
next
  assume a: "order_status self \<in> {''pending'', ''processing''} \<and> pk_consistent st
            \<and> (\<forall>item \<in> set (Order_items st self). products st (oi_product item) \<noteq> None)"
  then have cc: "can_cancel self" by (auto simp: can_cancel_def)
  from a restore_stock_effect[of st "Order_items st self" now] obtain st1
    where r: "restore_stock st (Order_items st self) now = Inr st1"
      and s: "\<And>k. map_option stock (products st1 k)
                  = map_option (\<lambda>p. stock p + restored (Order_items st self) k) (products st k)"
    by blast
  define self' where "self' = self\<lparr>order_status := ''cancelled'', order_updated_at := now\<rparr>"
  define st' where "st' = st1\<lparr>orders := (orders st1)(order_id self \<mapsto> self')\<rparr>"
  have "cancel_order st self now = Inr ((True, ''Order cancelled successfully''), self', st')"
    using cc r by (simp add: cancel_order_def Order_save_def Let_def self'_def st'_def)
  moreover have "order_status self' = ''cancelled''" by (simp add: self'_def)
  moreover have "orders st' (order_id self) = Some self'" by (simp add: st'_def)
  moreover have "\<forall>k. map_option stock (products st' k)
                      = map_option (\<lambda>p. stock p
                           + sum_list (map oi_quantity
                               (filter (\<lambda>item. oi_product item = k) (Order_items st self))))
                          (products st k)"
    using s by (simp add: st'_def restored_def)
  ultimately show "\<exists>self' st'. cancel_order st self now
                            = Inr ((True, ''Order cancelled successfully''), self', st')
               \<and> order_status self' = ''cancelled''
               \<and> orders st' (order_id self) = Some self'
               \<and> (\<forall>k. map_option stock (products st' k)
                      = map_option (\<lambda>p. stock p
                           + sum_list (map oi_quantity
                               (filter (\<lambda>item. oi_product item = k) (Order_items st self))))
                          (products st k))" by blast
qed

theorem cancel_order_restores_witness:
  "cancel_order order_store delivered_order 6
     = Inr ((False, ''Order cannot be cancelled''), delivered_order, order_store)
   \<and> map_option stock (products checked_out_store 1) = Some 7
   \<and> map oi_quantity (Order_items checked_out_store example_order) = [3]
   \<and> (\<exists>self' st'. cancel_order checked_out_store example_order 6
                    = Inr ((True, ''Order cancelled successfully''), self', st')
        \<and> order_status self' = ''cancelled''
        \<and> orders st' 1 = Some self'
        \<and> map_option stock (products st' 1) = Some 10)"
proof -
  have d: "order_status delivered_order \<in> {''delivered'', ''shipped'', ''cancelled''}"
    by (simp add: ex_defs)
  have p: "order_status example_order \<in> {''pending'', ''processing''}"
    by (simp add: ex2_defs)
  have c: "pk_consistent checked_out_store"
    by (simp add: ex_defs ex2_defs pk_consistent_def)
  have f: "\<forall>item \<in> set (Order_items checked_out_store example_order).
          products checked_out_store (oi_product item) \<noteq> None"
    by (simp add: ex_defs ex2_defs Order_items_def)
  from cancel_order_restores[of delivered_order order_store 6] d
  have a: "cancel_order order_store delivered_order 6
     = Inr ((False, ''Order cannot be cancelled''), delivered_order, order_store)" by blast
  from cancel_order_restores[of example_order checked_out_store 6] p c f
  obtain self' st' where r: "cancel_order checked_out_store example_order 6
                    = Inr ((True, ''Order cancelled successfully''), self', st')"
    "order_status self' = ''cancelled''"
    "orders st' (order_id example_order) = Some self'"
    "\<forall>k. map_option stock (products st' k)
                      = map_option (\<lambda>p. stock p
                           + sum_list (map oi_quantity
                               (filter (\<lambda>item. oi_product item = k)
                                  (Order_items checked_out_store example_order))))
                          (products checked_out_store k)" by blast
  from r(4) have "map_option stock (products st' 1) = Some 10"
    by (simp add: ex_defs ex2_defs Order_items_def)
  moreover from r(3) have "orders st' 1 = Some self'" by (simp add: ex2_defs)
  moreover have "map_option stock (products checked_out_store 1) = Some 7"
    "map oi_quantity (Order_items checked_out_store example_order) = [3]"
    by (simp_all add: ex_defs ex2_defs Order_items_def)
  ultimately show ?thesis using a r(1,2) by blast
qed

end
